theory Spec2Isabelle
  imports Main
begin

section \<open>JavaScript values and platform calls used by the pages\<close>

text \<open>
  Strings are lists of code units; only code units below 256 are represented.
  A value that may be \<^verbatim>\<open>null\<close> or \<^verbatim>\<open>undefined\<close> is an option.
  \<open>truthy\<close> is JavaScript's truth test on such a value: \<^verbatim>\<open>null\<close> and the empty
  string are falsy, every other string is truthy.
\<close>

definition truthy :: "string option \<Rightarrow> bool" where
  "truthy v = (case v of None \<Rightarrow> False | Some s \<Rightarrow> s \<noteq> [])"

text \<open>\<^verbatim>\<open>a || b\<close> on a string-or-undefined \<open>a\<close> and a string \<open>b\<close>.\<close>

definition or_else :: "string option \<Rightarrow> string \<Rightarrow> string" where
  "or_else a b = (case a of None \<Rightarrow> b | Some s \<Rightarrow> if s \<noteq> [] then s else b)"

text \<open>\<^verbatim>\<open>String.prototype.startsWith\<close>.\<close>

definition startsWith :: "string \<Rightarrow> string \<Rightarrow> bool" where
  "startsWith s p = (take (length p) s = p)"

text \<open>
  \<^verbatim>\<open>String.prototype.split(sep)\<close> for a one-character separator: the pieces
  between the separators, the empty string giving one empty piece.
\<close>

fun split_str :: "char \<Rightarrow> string \<Rightarrow> string list" where
  "split_str sep [] = [[]]"
| "split_str sep (c # cs) =
     (if c = sep then [] # split_str sep cs
      else (case split_str sep cs of
              [] \<Rightarrow> [[c]]
            | p # ps \<Rightarrow> (c # p) # ps))"

text \<open>Array indexing \<^verbatim>\<open>xs[i]\<close>: \<^verbatim>\<open>undefined\<close> out of range.\<close>

definition index :: "'a list \<Rightarrow> nat \<Rightarrow> 'a option" where
  "index xs i = (if i < length xs then Some (xs ! i) else None)"

text \<open>The text of a string after its first comma (empty when there is none).\<close>

definition after_first_comma :: "string \<Rightarrow> string" where
  "after_first_comma s = drop 1 (dropWhile (\<lambda>c. c \<noteq> CHR '','') s)"

text \<open>
  \<^verbatim>\<open>String.prototype.trim\<close>: white space among the represented code units is
  TAB, LF, VT, FF, CR, SPACE and NBSP.
\<close>

definition js_whitespace :: "char \<Rightarrow> bool" where
  "js_whitespace c = (of_char c \<in> {9, 10, 11, 12, 13, 32, 160 :: nat})"

definition trim :: "string \<Rightarrow> string" where
  "trim s = rev (dropWhile js_whitespace (rev (dropWhile js_whitespace s)))"

text \<open>
  A \<^verbatim>\<open>File\<close> of a file input: its reported MIME type (\<^verbatim>\<open>file.type\<close>) and the
  base64 text of its bytes, which is what \<^verbatim>\<open>FileReader.readAsDataURL\<close> puts
  after the header of the data URI it produces. A read that fails leaves
  \<^verbatim>\<open>reader.result\<close> \<^verbatim>\<open>null\<close>; \<^verbatim>\<open>onloadend\<close> fires either way.
\<close>

record upload =
  ftype :: string
  base64 :: string

definition readAsDataURL :: "upload \<Rightarrow> string" where
  "readAsDataURL f = ''data:'' @ ftype f @ '';base64,'' @ base64 f"

definition reader_result :: "upload \<Rightarrow> bool \<Rightarrow> string option" where
  "reader_result f ok = (if ok then Some (readAsDataURL f) else None)"

text \<open>Notifications: \<^verbatim>\<open>toast.error(msg)\<close> and \<^verbatim>\<open>toast.success(msg)\<close>.\<close>

datatype toast = Error string | Success string

section \<open>State shared by HomePage and ChatPage\<close>

text \<open>
  Both pages hold \<^verbatim>\<open>selectedImage\<close> and \<^verbatim>\<open>isLoading\<close> in React state and have
  the same \<^verbatim>\<open>handleImageSelect\<close>. Beside the React state the model records
  what the page did to the outside: the toasts shown, and the FileReaders whose
  read has started and not yet ended, in the order they were started.
\<close>

record page =
  selectedImage :: "string option"
  isLoading :: bool
  toasts :: "toast list"
  readers :: "upload list"

text \<open>
  \<^verbatim>\<open>handleImageSelect\<close> up to its return: \<^verbatim>\<open>e.target.files[0]\<close> is the argument
  (absent when the dialog was cancelled). The callback \<^verbatim>\<open>reader.onloadend\<close>
  is \<open>onloadend\<close>: it runs later, for the \<open>i\<close>-th reader still reading, and
  stores whatever the reader holds.
\<close>

definition handleImageSelect :: "upload option \<Rightarrow> 'a page_scheme \<Rightarrow> 'a page_scheme" where
  "handleImageSelect fo s =
     (case fo of
        None \<Rightarrow> s
      | Some f \<Rightarrow>
          if \<not> startsWith (ftype f) ''image/''
          then s\<lparr>toasts := toasts s @ [Error ''Please select a valid image file'']\<rparr>
          else s\<lparr>readers := readers s @ [f]\<rparr>)"

definition onloadend :: "nat \<Rightarrow> bool \<Rightarrow> 'a page_scheme \<Rightarrow> 'a page_scheme" where
  "onloadend i ok s =
     (if i < length (readers s)
      then s\<lparr>selectedImage := reader_result (readers s ! i) ok,
             readers := take i (readers s) @ drop (Suc i) (readers s)\<rparr>
      else s)"

section \<open>HomePage\<close>

record prediction_data =
  disease_name :: string
  confidence :: int
  description :: string
  treatments :: "string list"
  prevention_tips :: "string list"

text \<open>
  The rejection of \<^verbatim>\<open>axios.post\<close>: either no response at all, or a response
  whose body may carry \<^verbatim>\<open>detail\<close>. \<open>detail\<close> is \<^verbatim>\<open>error.response?.data?.detail\<close>.
\<close>

datatype axios_error = NoResponse | Response "string option"

fun detail :: "axios_error \<Rightarrow> string option" where
  "detail NoResponse = None"
| "detail (Response d) = d"

text \<open>
  \<open>predict_posts\<close> logs the \<^verbatim>\<open>image_base64\<close> field of every
  \<^verbatim>\<open>POST /api/predict\<close> issued, \<open>settled\<close> counts the requests whose promise
  has resolved or rejected.
\<close>

record home = page +
  prediction :: "prediction_data option"
  predict_posts :: "string option list"
  settled :: nat

definition home_init :: home where
  "home_init = \<lparr>selectedImage = None, isLoading = False, toasts = [], readers = [],
                 prediction = None, predict_posts = [], settled = 0\<rparr>"

text \<open>\<^verbatim>\<open>analyzeImage\<close> up to the \<^verbatim>\<open>await\<close>.\<close>

definition analyzeImage :: "home \<Rightarrow> home" where
  "analyzeImage s =
     (if \<not> truthy (selectedImage s)
      then s\<lparr>toasts := toasts s @ [Error ''Please select an image first'']\<rparr>
      else (case selectedImage s of
              None \<Rightarrow> s
            | Some img \<Rightarrow>
                s\<lparr>isLoading := True,
                  predict_posts := predict_posts s @ [index (split_str CHR '','' img) 1]\<rparr>))"

text \<open>The rest of \<^verbatim>\<open>analyzeImage\<close>, when the request resolves with \<^verbatim>\<open>response.data\<close>.\<close>

definition analyzeImage_resolved :: "prediction_data \<Rightarrow> home \<Rightarrow> home" where
  "analyzeImage_resolved d s =
     s\<lparr>prediction := Some d,
       toasts := toasts s @ [Success ''Analysis complete!''],
       isLoading := False,
       settled := Suc (settled s)\<rparr>"

text \<open>The \<^verbatim>\<open>catch\<close> and \<^verbatim>\<open>finally\<close> blocks, when the request rejects.\<close>

definition analyzeImage_rejected :: "axios_error \<Rightarrow> home \<Rightarrow> home" where
  "analyzeImage_rejected e s =
     s\<lparr>toasts := toasts s @ [Error (or_else (detail e) ''Failed to analyze image'')],
       isLoading := False,
       settled := Suc (settled s)\<rparr>"

definition resetAnalysis :: "home \<Rightarrow> home" where
  "resetAnalysis s = s\<lparr>selectedImage := None, prediction := None\<rparr>"

text \<open>
  What the JSX renders. The upload area, the file input and the analyze button
  exist only while there is no prediction; the analyze button carries
  \<^verbatim>\<open>disabled={!selectedImage || isLoading}\<close>; a reset button exists when an
  image is selected or a prediction is shown.
\<close>

definition analyze_disabled :: "home \<Rightarrow> bool" where
  "analyze_disabled s = (\<not> truthy (selectedImage s) \<or> isLoading s)"

definition click_analyze :: "home \<Rightarrow> home" where
  "click_analyze s =
     (if prediction s = None \<and> \<not> analyze_disabled s then analyzeImage s else s)"

datatype home_event =
    FileInput "upload option"
  | LoadEnd nat bool
  | ClickAnalyze
  | ClickReset
  | PredictOk prediction_data
  | PredictFail axios_error

text \<open>
  One event of the page. An event that cannot happen in the state (a change on
  a file input that is not rendered, a response when no request is outstanding)
  leaves it as it is.
\<close>

fun home_step :: "home \<Rightarrow> home_event \<Rightarrow> home" where
  "home_step s (FileInput fo) = (if prediction s = None then handleImageSelect fo s else s)"
| "home_step s (LoadEnd i ok) = onloadend i ok s"
| "home_step s ClickAnalyze = click_analyze s"
| "home_step s ClickReset =
     (if prediction s \<noteq> None \<or> truthy (selectedImage s) then resetAnalysis s else s)"
| "home_step s (PredictOk d) =
     (if settled s < length (predict_posts s) then analyzeImage_resolved d s else s)"
| "home_step s (PredictFail e) =
     (if settled s < length (predict_posts s) then analyzeImage_rejected e s else s)"

definition home_run :: "home_event list \<Rightarrow> home" where
  "home_run evs = foldl home_step home_init evs"

text \<open>The number of diagnosis requests issued and not yet answered.\<close>

definition in_flight :: "home \<Rightarrow> nat" where
  "in_flight s = length (predict_posts s) - settled s"

text \<open>The controller's states, read off the React state.\<close>

definition is_Pending :: "home \<Rightarrow> bool" where
  "is_Pending s = isLoading s"

definition is_Resolved :: "home \<Rightarrow> bool" where
  "is_Resolved s = (\<not> isLoading s \<and> prediction s \<noteq> None)"

definition is_Ready :: "home \<Rightarrow> bool" where
  "is_Ready s = (\<not> isLoading s \<and> prediction s = None \<and> truthy (selectedImage s))"

section \<open>ChatPage\<close>

datatype role = User | Assistant

text \<open>
  A message of the conversation. The assistant's message object has no
  \<^verbatim>\<open>image_base64\<close> property, which reads as \<^verbatim>\<open>undefined\<close>.
\<close>

record chat_message =
  role :: role
  message :: string
  image_base64 :: "string option"
  timestamp :: string

text \<open>The body of a \<^verbatim>\<open>POST /api/chat\<close>.\<close>

record chat_request =
  session_id :: string
  body_message :: string
  body_image_base64 :: "string option"

text \<open>
  \<open>chat_posts\<close> logs the \<^verbatim>\<open>POST /api/chat\<close> requests issued and
  \<open>chat_settled\<close> counts those whose promise has resolved or rejected.
  \<open>history_loading\<close> says that the \<^verbatim>\<open>GET /api/chat/history/{sessionId}\<close>
  of \<^verbatim>\<open>loadHistory\<close> is still unanswered.
\<close>

record chat = page +
  messages :: "chat_message list"
  inputMessage :: string
  sessionId :: string
  chat_posts :: "chat_request list"
  chat_settled :: nat
  history_loading :: bool

text \<open>
  The page once mounted: the \<^verbatim>\<open>useEffect\<close> on \<^verbatim>\<open>sessionId\<close> has called
  \<^verbatim>\<open>loadHistory\<close>, whose request is on its way.
\<close>

definition chat_init :: "string \<Rightarrow> chat" where
  "chat_init sid = \<lparr>selectedImage = None, isLoading = False, toasts = [], readers = [],
                     messages = [], inputMessage = [], sessionId = sid, chat_posts = [],
                     chat_settled = 0, history_loading = True\<rparr>"

text \<open>
  The rest of \<^verbatim>\<open>loadHistory\<close>: \<^verbatim>\<open>setMessages(response.data)\<close> puts the
  response in place of whatever the conversation holds; a failure is only
  logged to the console.
\<close>

definition loadHistory_resolved :: "chat_message list \<Rightarrow> chat \<Rightarrow> chat" where
  "loadHistory_resolved hist s = s\<lparr>messages := hist, history_loading := False\<rparr>"

definition loadHistory_rejected :: "chat \<Rightarrow> chat" where
  "loadHistory_rejected s = s\<lparr>history_loading := False\<rparr>"

text \<open>
  \<^verbatim>\<open>sendMessage\<close> up to the \<^verbatim>\<open>await\<close>; \<open>now\<close> is \<^verbatim>\<open>new Date().toISOString()\<close>.
\<close>

definition sendMessage :: "string \<Rightarrow> chat \<Rightarrow> chat" where
  "sendMessage now s =
     (if trim (inputMessage s) = [] \<and> \<not> truthy (selectedImage s) then s
      else
        let userMessage = \<lparr>role = User, message = inputMessage s,
                            image_base64 = selectedImage s, timestamp = now\<rparr>;
            imageToSend = selectedImage s;
            base64Data = (case imageToSend of
                            None \<Rightarrow> None
                          | Some img \<Rightarrow>
                              if img \<noteq> [] then index (split_str CHR '','' img) 1 else None)
        in s\<lparr>messages := messages s @ [userMessage],
              inputMessage := [],
              selectedImage := None,
              isLoading := True,
              chat_posts := chat_posts s @
                [\<lparr>session_id = sessionId s,
                  body_message = or_else (Some (inputMessage s)) ''Please analyze this image'',
                  body_image_base64 = base64Data\<rparr>]\<rparr>)"

text \<open>The rest of \<^verbatim>\<open>sendMessage\<close>, when the request resolves with \<^verbatim>\<open>response.data.response\<close>.\<close>

definition sendMessage_resolved :: "string \<Rightarrow> string \<Rightarrow> chat \<Rightarrow> chat" where
  "sendMessage_resolved now reply s =
     s\<lparr>messages := messages s @
         [\<lparr>role = Assistant, message = reply, image_base64 = None, timestamp = now\<rparr>],
       isLoading := False,
       chat_settled := Suc (chat_settled s)\<rparr>"

text \<open>The \<^verbatim>\<open>catch\<close> and \<^verbatim>\<open>finally\<close> blocks, when the request rejects.\<close>

definition sendMessage_rejected :: "chat \<Rightarrow> chat" where
  "sendMessage_rejected s =
     s\<lparr>toasts := toasts s @ [Error ''Failed to send message''],
       isLoading := False,
       chat_settled := Suc (chat_settled s)\<rparr>"

text \<open>
  The send button carries
  \<^verbatim>\<open>disabled={(!inputMessage.trim() && !selectedImage) || isLoading}\<close>;
  the text input calls \<^verbatim>\<open>handleKeyPress\<close> on every key press and is never disabled.
\<close>

definition send_disabled :: "chat \<Rightarrow> bool" where
  "send_disabled s =
     ((trim (inputMessage s) = [] \<and> \<not> truthy (selectedImage s)) \<or> isLoading s)"

definition click_send :: "string \<Rightarrow> chat \<Rightarrow> chat" where
  "click_send now s = (if send_disabled s then s else sendMessage now s)"

definition handleKeyPress :: "string \<Rightarrow> bool \<Rightarrow> string \<Rightarrow> chat \<Rightarrow> chat" where
  "handleKeyPress key shiftKey now s =
     (if key = ''Enter'' \<and> \<not> shiftKey then sendMessage now s else s)"

text \<open>
  The \<^verbatim>\<open>src\<close> of the image a message is rendered with:
  \<^verbatim>\<open>msg.image_base64 && <img src={`data:image/jpeg;base64,${msg.image_base64}`}/>\<close>.
\<close>

definition img_src :: "chat_message \<Rightarrow> string option" where
  "img_src msg =
     (case image_base64 msg of
        None \<Rightarrow> None
      | Some b \<Rightarrow> if b \<noteq> [] then Some (''data:image/jpeg;base64,'' @ b) else None)"

text \<open>
  The events of the page: typing in the text input (\<^verbatim>\<open>onChange\<close>), the
  file input and the end of a read, the button that removes the selected image
  (rendered while one is selected), the send button, a key press in the text
  input, and the settlement of a chat request or of the history request. A
  settlement with no request outstanding cannot happen and leaves the state as
  it is.
\<close>

datatype chat_event =
    TypeText string
  | ChatFileInput "upload option"
  | ChatLoadEnd nat bool
  | RemoveImage
  | ClickSend string
  | KeyPress string bool string
  | ChatOk string string
  | ChatFail
  | HistoryOk "chat_message list"
  | HistoryFail

fun chat_step :: "chat \<Rightarrow> chat_event \<Rightarrow> chat" where
  "chat_step s (TypeText v) = s\<lparr>inputMessage := v\<rparr>"
| "chat_step s (ChatFileInput fo) = handleImageSelect fo s"
| "chat_step s (ChatLoadEnd i ok) = onloadend i ok s"
| "chat_step s RemoveImage =
     (if truthy (selectedImage s) then s\<lparr>selectedImage := None\<rparr> else s)"
| "chat_step s (ClickSend now) = click_send now s"
| "chat_step s (KeyPress key shiftKey now) = handleKeyPress key shiftKey now s"
| "chat_step s (ChatOk reply now) =
     (if chat_settled s < length (chat_posts s) then sendMessage_resolved now reply s else s)"
| "chat_step s ChatFail =
     (if chat_settled s < length (chat_posts s) then sendMessage_rejected s else s)"
| "chat_step s (HistoryOk hist) =
     (if history_loading s then loadHistory_resolved hist s else s)"
| "chat_step s HistoryFail =
     (if history_loading s then loadHistory_rejected s else s)"

definition chat_run :: "string \<Rightarrow> chat_event list \<Rightarrow> chat" where
  "chat_run sid evs = foldl chat_step (chat_init sid) evs"









section \<open>Auxiliary notions\<close>

text \<open>
  The bookkeeping that ties the loading flag to the network: every request
  issued is either settled or the one the flag stands for.
\<close>

definition inv_home :: "home \<Rightarrow> bool" where
  "inv_home s = (settled s + (if isLoading s then 1 else 0) = length (predict_posts s))"

text \<open>The characters base64 text is made of.\<close>

definition base64_char :: "char \<Rightarrow> bool" where
  "base64_char c =
     (c \<in> set ''ABCDEFGHIJKLMNOPQRSTUVWXYZabcdefghijklmnopqrstuvwxyz0123456789+/='')"

subsection \<open>Sample inputs\<close>

definition leaf :: upload where
  "leaf = \<lparr>ftype = ''image/png'', base64 = ''iVBOR''\<rparr>"

definition leaf2 :: upload where
  "leaf2 = \<lparr>ftype = ''image/jpeg'', base64 = ''/9j/4AAQ''\<rparr>"

definition report :: upload where
  "report = \<lparr>ftype = ''application/pdf'', base64 = ''JVBERi0x''\<rparr>"

definition blight :: prediction_data where
  "blight = \<lparr>disease_name = ''Leaf Blight'', confidence = 92, description = ''...'',
              treatments = [''Remove affected leaves'', ''Apply fungicide''],
              prevention_tips = [''Avoid overwatering'']\<rparr>"




section \<open>Lemmas about the platform calls\<close>

lemmas eval_defs =
  home_run_def home_init_def chat_init_def handleImageSelect_def startsWith_def
  onloadend_def reader_result_def readAsDataURL_def click_analyze_def analyze_disabled_def
  truthy_def or_else_def analyzeImage_def analyzeImage_resolved_def analyzeImage_rejected_def
  resetAnalysis_def index_def is_Pending_def is_Ready_def is_Resolved_def in_flight_def
  sendMessage_def sendMessage_resolved_def sendMessage_rejected_def send_disabled_def
  click_send_def handleKeyPress_def img_src_def trim_def js_whitespace_def Let_def
  after_first_comma_def leaf_def leaf2_def report_def blight_def
  chat_run_def loadHistory_resolved_def loadHistory_rejected_def

lemma split_str_no_sep: "sep \<notin> set b \<Longrightarrow> split_str sep b = [b]"
  by (induction b) auto

lemma split_str_once:
  "sep \<notin> set a \<Longrightarrow> sep \<notin> set b \<Longrightarrow> split_str sep (a @ sep # b) = [a, b]"
  by (induction a) (auto simp: split_str_no_sep)

lemma after_first_comma_once:
  "CHR '','' \<notin> set a \<Longrightarrow> after_first_comma (a @ CHR '','' # b) = b"
  by (induction a) (auto simp: after_first_comma_def)

lemma readAsDataURL_shape:
  "readAsDataURL f = (''data:'' @ ftype f @ '';base64'') @ CHR '','' # base64 f"
  by (simp add: readAsDataURL_def)

lemma payload_of_data_uri:
  assumes "CHR '','' \<notin> set (ftype f)" "CHR '','' \<notin> set (base64 f)"
  shows "index (split_str CHR '','' (readAsDataURL f)) 1 = Some (base64 f)"
proof -
  have "CHR '','' \<notin> set (''data:'' @ ftype f @ '';base64'')"
    using assms(1) by simp
  then have "split_str CHR '','' (readAsDataURL f) =
             [''data:'' @ ftype f @ '';base64'', base64 f]"
    unfolding readAsDataURL_shape using assms(2) by (rule split_str_once)
  then show ?thesis by (simp add: index_def)
qed

lemma tail_of_data_uri:
  assumes "CHR '','' \<notin> set (ftype f)"
  shows "after_first_comma (readAsDataURL f) = base64 f"
proof -
  have "CHR '','' \<notin> set (''data:'' @ ftype f @ '';base64'')"
    using assms(1) by simp
  then show ?thesis
    unfolding readAsDataURL_shape by (rule after_first_comma_once)
qed

lemma truthy_data_uri: "truthy (Some (readAsDataURL f))"
  by (simp add: truthy_def readAsDataURL_def)

lemma comma_not_base64: "\<not> base64_char CHR '',''"
  by (simp add: base64_char_def)

lemma base64_text_no_comma: "list_all base64_char b \<Longrightarrow> CHR '','' \<notin> set b"
  using comma_not_base64 by (auto simp: list_all_iff)

text \<open>A valid selection followed by the end of its read, with nothing in between.\<close>

lemma select_then_loadend:
  "startsWith (ftype f) ''image/'' \<Longrightarrow>
   onloadend (length (readers s)) ok (handleImageSelect (Some f) s) =
     s\<lparr>selectedImage := reader_result f ok\<rparr>"
  by (simp add: handleImageSelect_def onloadend_def)

section \<open>HomePage: one diagnosis request at a time\<close>

lemma inv_home_step: "inv_home s \<Longrightarrow> inv_home (home_step s e)"
  by (cases e)
     (auto simp: inv_home_def handleImageSelect_def onloadend_def click_analyze_def
        analyze_disabled_def analyzeImage_def analyzeImage_resolved_def
        analyzeImage_rejected_def resetAnalysis_def
        split: option.splits if_splits)

lemma inv_home_foldl: "inv_home s \<Longrightarrow> inv_home (foldl home_step s evs)"
  by (induction evs arbitrary: s) (simp_all add: inv_home_step)

lemma inv_home_run: "inv_home (home_run evs)"
  unfolding home_run_def by (rule inv_home_foldl) (simp add: inv_home_def home_init_def)

text \<open>
  \<^verbatim>\<open>analyzeImage\<close> does not look at \<^verbatim>\<open>isLoading\<close>: called in a state that is
  already loading it posts again. What keeps the page from doing so is the
  \<^verbatim>\<open>disabled\<close> attribute of the only element that calls it.
\<close>

lemma analyzeImage_has_no_pending_guard:
  "let s = home_run [FileInput (Some leaf), LoadEnd 0 True, ClickAnalyze]
   in is_Pending s \<and> in_flight s = 1 \<and> in_flight (analyzeImage s) = 2
      \<and> predict_posts (analyzeImage s) = [Some ''iVBOR'', Some ''iVBOR'']"
  by (simp add: eval_defs)

text \<open>
  C1. \<^verbatim>\<open>submit()\<close> is the click on the analyze button, the only caller of
  \<^verbatim>\<open>analyzeImage\<close>. After any sequence of events of the page at most one
  \<^verbatim>\<open>POST /api/predict\<close> is unanswered, and one is unanswered exactly when the
  page is loading; a click while loading changes nothing; two clicks in a row
  from a state with an image selected issue exactly one request.
\<close>

theorem at_most_one_predict_in_flight:
  "in_flight (home_run evs) \<le> 1
   \<and> (is_Pending (home_run evs) \<longleftrightarrow> in_flight (home_run evs) = 1)
   \<and> (is_Pending s \<longrightarrow> click_analyze s = s)
   \<and> (is_Ready r \<longrightarrow>
        length (predict_posts (click_analyze (click_analyze r))) =
          Suc (length (predict_posts r)))"
proof -
  have "inv_home (home_run evs)" by (rule inv_home_run)
  then have a: "in_flight (home_run evs) \<le> 1"
    and b: "is_Pending (home_run evs) \<longleftrightarrow> in_flight (home_run evs) = 1"
    by (auto simp: inv_home_def in_flight_def is_Pending_def split: if_splits)
  have c: "is_Pending s \<longrightarrow> click_analyze s = s"
    by (simp add: is_Pending_def click_analyze_def analyze_disabled_def)
  have d: "is_Ready r \<longrightarrow>
        length (predict_posts (click_analyze (click_analyze r))) =
          Suc (length (predict_posts r))"
    by (auto simp: is_Ready_def click_analyze_def analyze_disabled_def analyzeImage_def
          truthy_def split: option.splits)
  from a b c d show ?thesis by blast
qed

theorem at_most_one_predict_in_flight_witness:
  "in_flight (home_run [FileInput (Some leaf), LoadEnd 0 True, ClickAnalyze, ClickAnalyze]) \<le> 1
   \<and> is_Pending (home_run [FileInput (Some leaf), LoadEnd 0 True, ClickAnalyze])
   \<and> click_analyze (home_run [FileInput (Some leaf), LoadEnd 0 True, ClickAnalyze]) =
       home_run [FileInput (Some leaf), LoadEnd 0 True, ClickAnalyze]
   \<and> is_Ready (home_run [FileInput (Some leaf), LoadEnd 0 True])
   \<and> length (predict_posts (click_analyze (click_analyze
          (home_run [FileInput (Some leaf), LoadEnd 0 True])))) = 1"
  using at_most_one_predict_in_flight
    [of "[FileInput (Some leaf), LoadEnd 0 True, ClickAnalyze, ClickAnalyze]"
        "home_run [FileInput (Some leaf), LoadEnd 0 True, ClickAnalyze]"
        "home_run [FileInput (Some leaf), LoadEnd 0 True]"]
  by (simp add: eval_defs)

section \<open>ChatPage: sending\<close>

text \<open>
  C2. Sends are not serialized on every path. The send button is disabled
  while a reply is awaited, but the Enter key calls \<^verbatim>\<open>sendMessage\<close> with no such
  test: with a first message still unanswered, a click on the button changes
  nothing, while Enter appends a second user message and issues a second
  \<^verbatim>\<open>POST /api/chat\<close>.
\<close>

theorem enter_key_sends_while_awaiting_reply:
  "let s0 = click_send ''t1'' ((chat_init ''session_1'')\<lparr>inputMessage := ''first''\<rparr>);
       typed = s0\<lparr>inputMessage := ''second''\<rparr>;
       s1 = handleKeyPress ''Enter'' False ''t2'' typed
   in isLoading s0 \<and> isLoading typed
      \<and> click_send ''t2'' typed = typed
      \<and> map message (messages typed) = [''first'']
      \<and> map message (messages s1) = [''first'', ''second'']
      \<and> map body_message (chat_posts typed) = [''first'']
      \<and> map body_message (chat_posts s1) = [''first'', ''second'']"
  by (simp add: eval_defs)







text \<open>
  C4, as stated, fails: with empty text and an image selected the message
  appended to the conversation has the empty text, not a placeholder, and it
  differs from the text of the request, which is
  \<^verbatim>\<open>Please analyze this image\<close> with a capital P.
\<close>

theorem empty_text_message_is_not_placeholder:
  "let s = sendMessage ''t1''
             ((chat_init ''session_1'')\<lparr>selectedImage := Some ''data:image/png;base64,iVBOR''\<rparr>)
   in map message (messages s) = [[]]
      \<and> map body_message (chat_posts s) = [''Please analyze this image'']
      \<and> message (last (messages s)) \<noteq> ''please analyze this image''
      \<and> message (last (messages s)) \<noteq> body_message (last (chat_posts s))"
  by (simp add: eval_defs)

text \<open>
  C4, amended. On a send with empty text and an image selected, the user
  message appended to the conversation carries the empty text and the selected
  image, and the request body carries \<^verbatim>\<open>Please analyze this image\<close>.
\<close>

theorem empty_text_send_with_attachment:
  "inputMessage s = [] \<Longrightarrow> truthy (selectedImage s) \<Longrightarrow>
   messages (sendMessage now s) =
     messages s @
       [\<lparr>role = User, message = [], image_base64 = selectedImage s, timestamp = now\<rparr>]
   \<and> map body_message (chat_posts (sendMessage now s)) =
       map body_message (chat_posts s) @ [''Please analyze this image'']"
  by (simp add: sendMessage_def Let_def or_else_def)

theorem empty_text_send_with_attachment_witness:
  "inputMessage
     ((chat_init ''session_1'')\<lparr>selectedImage := Some ''data:image/png;base64,iVBOR''\<rparr>) = []
   \<and> truthy (selectedImage
       ((chat_init ''session_1'')\<lparr>selectedImage := Some ''data:image/png;base64,iVBOR''\<rparr>))
   \<and> messages (sendMessage ''t1''
       ((chat_init ''session_1'')\<lparr>selectedImage := Some ''data:image/png;base64,iVBOR''\<rparr>)) =
       [\<lparr>role = User, message = [],
         image_base64 = Some ''data:image/png;base64,iVBOR'', timestamp = ''t1''\<rparr>]
   \<and> map body_message (chat_posts (sendMessage ''t1''
       ((chat_init ''session_1'')\<lparr>selectedImage := Some ''data:image/png;base64,iVBOR''\<rparr>))) =
       [''Please analyze this image'']"
  using empty_text_send_with_attachment
    [of "(chat_init ''session_1'')\<lparr>selectedImage := Some ''data:image/png;base64,iVBOR''\<rparr>"
        "''t1''"]
  by (simp add: chat_init_def truthy_def)

section \<open>Selecting an image\<close>

text \<open>
  C5, as stated, fails: \<^verbatim>\<open>handleImageSelect\<close> and its \<^verbatim>\<open>onloadend\<close> never touch
  \<^verbatim>\<open>prediction\<close>. Applied to a state that shows a prediction they replace the
  image and keep the prediction, so the state is not Ready. The page reaches
  such a state by its own events too: a file chosen while the request is
  pending, whose read ends after the prediction has arrived.
\<close>

theorem selection_keeps_prediction:
  "let s = home_run [FileInput (Some leaf), LoadEnd 0 True, ClickAnalyze, PredictOk blight];
       s' = onloadend 0 True (handleImageSelect (Some leaf2) s);
       u = home_run [FileInput (Some leaf), LoadEnd 0 True, ClickAnalyze,
                     FileInput (Some leaf2), PredictOk blight, LoadEnd 0 True]
   in is_Resolved s \<and> prediction s = Some blight
      \<and> selectedImage s' = Some ''data:image/jpeg;base64,/9j/4AAQ''
      \<and> prediction s' = Some blight \<and> \<not> is_Ready s'
      \<and> selectedImage u = Some ''data:image/jpeg;base64,/9j/4AAQ''
      \<and> prediction u = Some blight \<and> \<not> is_Ready u"
  by (simp add: eval_defs)

text \<open>
  C5, amended. A successful selection of an image file sets the selected image
  to the file's data URI and changes neither the prediction nor the loading
  flag: the state afterwards is Ready exactly when the page was not loading and
  held no prediction (Idle, Ready, or after a failure). A prediction is
  discarded by \<^verbatim>\<open>resetAnalysis\<close>.
\<close>

theorem selection_sets_image_only:
  fixes s :: home
  assumes "startsWith (ftype f) ''image/''"
  shows "let s' = onloadend (length (readers s)) True (handleImageSelect (Some f) s)
         in selectedImage s' = Some (readAsDataURL f)
            \<and> prediction s' = prediction s
            \<and> isLoading s' = isLoading s
            \<and> is_Ready s' = (\<not> isLoading s \<and> prediction s = None)
            \<and> prediction (resetAnalysis s') = None"
  using assms truthy_data_uri [of f]
  by (simp add: select_then_loadend reader_result_def is_Ready_def resetAnalysis_def Let_def)

theorem selection_sets_image_only_witness:
  "startsWith (ftype leaf2) ''image/''
   \<and> selectedImage (onloadend 0 True (handleImageSelect (Some leaf2) home_init)) =
       Some ''data:image/jpeg;base64,/9j/4AAQ''
   \<and> is_Ready (onloadend 0 True (handleImageSelect (Some leaf2) home_init))"
  using selection_sets_image_only [of leaf2 home_init]
  by (simp add: eval_defs)

text \<open>
  C6, as stated, fails: nothing marks a read as superseded. With a second read
  started before the first has ended, the first read's result is stored when it
  ends, whether it ends before the second or after it; ending after it, the
  selection is left holding the image of the earlier call.
\<close>

theorem superseded_read_is_applied:
  "let s = handleImageSelect (Some leaf2) (handleImageSelect (Some leaf) home_init);
       s' = onloadend 0 True (onloadend 1 True s)
   in readers s = [leaf, leaf2]
      \<and> selectedImage (onloadend 0 True s) = Some (readAsDataURL leaf)
      \<and> selectedImage (onloadend 1 True s) = Some (readAsDataURL leaf2)
      \<and> selectedImage s' = Some (readAsDataURL leaf)
      \<and> selectedImage s' \<noteq> Some (readAsDataURL leaf2)
      \<and> readers s' = []"
  by (simp add: eval_defs)

text \<open>
  C6, amended. Image encoding is last-completion-wins, on both pages: when two
  reads of image files are started one after the other and both end, the
  selection holds the result of the read that ended last, in either order.
\<close>

theorem last_completed_read_wins:
  assumes "startsWith (ftype f) ''image/''" "startsWith (ftype g) ''image/''"
  shows "let n = length (readers s);
             s2 = handleImageSelect (Some g) (handleImageSelect (Some f) s)
         in readers s2 = readers s @ [f, g]
            \<and> selectedImage (onloadend n True (onloadend (Suc n) True s2)) =
                Some (readAsDataURL f)
            \<and> selectedImage (onloadend n True (onloadend n True s2)) =
                Some (readAsDataURL g)"
  using assms
  by (simp add: handleImageSelect_def onloadend_def reader_result_def Let_def nth_append)

theorem last_completed_read_wins_witness:
  "startsWith (ftype leaf) ''image/'' \<and> startsWith (ftype leaf2) ''image/''
   \<and> selectedImage (onloadend 0 True (onloadend 1 True
        (handleImageSelect (Some leaf2)
           (handleImageSelect (Some leaf) (chat_init ''session_1''))))) =
       Some ''data:image/png;base64,iVBOR''
   \<and> selectedImage (onloadend 0 True (onloadend 0 True
        (handleImageSelect (Some leaf2)
           (handleImageSelect (Some leaf) (chat_init ''session_1''))))) =
       Some ''data:image/jpeg;base64,/9j/4AAQ''"
  using last_completed_read_wins [of leaf leaf2 "chat_init ''session_1''"]
  by (simp add: eval_defs)

section \<open>Transport form and display form\<close>

text \<open>
  C7. The message appended on a send holds the image as it was selected, the
  whole data URI, while the rendering of a message prefixes
  \<^verbatim>\<open>data:image/jpeg;base64,\<close> to whatever it holds: the user's own message is
  rendered from a URI with two headers. Only the request body carries the
  base64 text alone.
\<close>

theorem optimistic_message_holds_display_form:
  "let s0 = onloadend 0 True (handleImageSelect (Some leaf) (chat_init ''session_1''));
       s = click_send ''t1'' (s0\<lparr>inputMessage := ''what is this?''\<rparr>);
       m = last (messages s)
   in selectedImage s0 = Some ''data:image/png;base64,iVBOR''
      \<and> role m = User
      \<and> image_base64 m = Some ''data:image/png;base64,iVBOR''
      \<and> img_src m = Some ''data:image/jpeg;base64,data:image/png;base64,iVBOR''
      \<and> body_image_base64 (last (chat_posts s)) = Some ''iVBOR''"
  by (simp add: eval_defs)

text \<open>
  C8. For an image file whose MIME type holds no comma (no media type does)
  and whose data is base64 text, the selection made from it is its data URI;
  \<^verbatim>\<open>split(',')[1]\<close> of that URI is the text after its first comma, which is the
  base64 text of the file with nothing of the header; and that is the
  \<^verbatim>\<open>image_base64\<close> field of the diagnosis request and of the chat request.
\<close>

theorem transport_payload_is_base64_body:
  fixes h :: home and c :: chat
  assumes "startsWith (ftype f) ''image/''"
    and "CHR '','' \<notin> set (ftype f)"
    and "list_all base64_char (base64 f)"
  shows "let uri = readAsDataURL f;
             h' = onloadend (length (readers h)) True (handleImageSelect (Some f) h);
             c' = onloadend (length (readers c)) True (handleImageSelect (Some f) c)
         in selectedImage h' = Some uri \<and> selectedImage c' = Some uri
            \<and> index (split_str CHR '','' uri) 1 = Some (after_first_comma uri)
            \<and> after_first_comma uri = base64 f
            \<and> predict_posts (analyzeImage h') = predict_posts h @ [Some (base64 f)]
            \<and> map body_image_base64 (chat_posts (sendMessage now c')) =
                map body_image_base64 (chat_posts c) @ [Some (base64 f)]"
proof -
  have nc: "CHR '','' \<notin> set (base64 f)"
    using assms(3) by (rule base64_text_no_comma)
  have payload: "index (split_str CHR '','' (readAsDataURL f)) 1 = Some (base64 f)"
    using assms(2) nc by (rule payload_of_data_uri)
  have tail: "after_first_comma (readAsDataURL f) = base64 f"
    using assms(2) by (rule tail_of_data_uri)
  have ne: "readAsDataURL f \<noteq> []"
    by (simp add: readAsDataURL_def)
  have hs: "onloadend (length (readers h)) True (handleImageSelect (Some f) h) =
            h\<lparr>selectedImage := Some (readAsDataURL f)\<rparr>"
    using assms(1) by (simp add: select_then_loadend reader_result_def)
  have cs: "onloadend (length (readers c)) True (handleImageSelect (Some f) c) =
            c\<lparr>selectedImage := Some (readAsDataURL f)\<rparr>"
    using assms(1) by (simp add: select_then_loadend reader_result_def)
  have post: "predict_posts (analyzeImage (h\<lparr>selectedImage := Some (readAsDataURL f)\<rparr>)) =
              predict_posts h @ [Some (base64 f)]"
    using ne payload by (simp add: analyzeImage_def truthy_def)
  have chat: "map body_image_base64
                (chat_posts (sendMessage now (c\<lparr>selectedImage := Some (readAsDataURL f)\<rparr>))) =
              map body_image_base64 (chat_posts c) @ [Some (base64 f)]"
    using ne payload by (simp add: sendMessage_def truthy_def Let_def)
  show ?thesis
    unfolding Let_def hs cs using payload tail post chat by simp
qed

theorem transport_payload_is_base64_body_witness:
  "startsWith (ftype leaf) ''image/'' \<and> CHR '','' \<notin> set (ftype leaf)
   \<and> list_all base64_char (base64 leaf)
   \<and> after_first_comma ''data:image/png;base64,iVBOR'' = ''iVBOR''
   \<and> predict_posts (analyzeImage (onloadend 0 True (handleImageSelect (Some leaf) home_init))) =
       [Some ''iVBOR'']
   \<and> map body_image_base64 (chat_posts (sendMessage ''t1''
        (onloadend 0 True (handleImageSelect (Some leaf) (chat_init ''session_1''))))) =
       [Some ''iVBOR'']"
  using transport_payload_is_base64_body [of leaf home_init "chat_init ''session_1''" "''t1''"]
  by (simp add: eval_defs base64_char_def)

section \<open>Failures\<close>

text \<open>
  C9, as stated, fails where the service's \<^verbatim>\<open>detail\<close> is present and empty:
  \<^verbatim>\<open>detail || "Failed to analyze image"\<close> then shows the generic message, not
  the detail.
\<close>

theorem empty_detail_gives_generic_message:
  "let s = home_run [FileInput (Some leaf), LoadEnd 0 True, ClickAnalyze];
       s' = home_step s (PredictFail (Response (Some [])))
   in is_Pending s \<and> detail (Response (Some [])) = Some []
      \<and> toasts s' = [Error ''Failed to analyze image'']
      \<and> toasts s' \<noteq> [Error []]"
  by (simp add: eval_defs)

text \<open>
  C9, amended. When the diagnosis request fails the page stops loading, shows
  the service's \<^verbatim>\<open>detail\<close> verbatim when it is present and not empty and
  \<^verbatim>\<open>Failed to analyze image\<close> otherwise, and leaves the selected image, the
  prediction and the requests made as they were; with an image selected and no
  prediction the state is Ready again and a click on the analyze button issues
  a new request.
\<close>

theorem failed_predict_keeps_selection:
  "let s' = analyzeImage_rejected e s
   in \<not> isLoading s'
      \<and> selectedImage s' = selectedImage s
      \<and> prediction s' = prediction s
      \<and> predict_posts s' = predict_posts s
      \<and> toasts s' = toasts s @
           [Error (case detail e of
                     None \<Rightarrow> ''Failed to analyze image''
                   | Some d \<Rightarrow> if d = [] then ''Failed to analyze image'' else d)]
      \<and> (truthy (selectedImage s) \<and> prediction s = None \<longrightarrow>
           is_Ready s' \<and>
           length (predict_posts (click_analyze s')) = Suc (length (predict_posts s)))"
  by (auto simp: analyzeImage_rejected_def or_else_def is_Ready_def click_analyze_def
        analyze_disabled_def analyzeImage_def Let_def truthy_def split: option.splits)

theorem failed_predict_keeps_selection_witness:
  "truthy (selectedImage (home_run [FileInput (Some leaf), LoadEnd 0 True, ClickAnalyze]))
   \<and> prediction (home_run [FileInput (Some leaf), LoadEnd 0 True, ClickAnalyze]) = None
   \<and> toasts (analyzeImage_rejected NoResponse
        (home_run [FileInput (Some leaf), LoadEnd 0 True, ClickAnalyze])) =
       [Error ''Failed to analyze image'']
   \<and> selectedImage (analyzeImage_rejected NoResponse
        (home_run [FileInput (Some leaf), LoadEnd 0 True, ClickAnalyze])) =
       Some ''data:image/png;base64,iVBOR''
   \<and> is_Ready (analyzeImage_rejected NoResponse
        (home_run [FileInput (Some leaf), LoadEnd 0 True, ClickAnalyze]))"
  using failed_predict_keeps_selection
    [of NoResponse "home_run [FileInput (Some leaf), LoadEnd 0 True, ClickAnalyze]"]
  by (simp add: eval_defs)

text \<open>
  C10. On both pages a file whose MIME type does not begin with \<^verbatim>\<open>image/\<close>
  gets the error toast and nothing else: the selection is as it was, no read is
  started (so none can change the selection later), and no request is issued.
\<close>

theorem non_image_file_rejected:
  fixes h :: home and c :: chat
  assumes "\<not> startsWith (ftype f) ''image/''"
  shows "toasts (handleImageSelect (Some f) h) =
           toasts h @ [Error ''Please select a valid image file'']
         \<and> selectedImage (handleImageSelect (Some f) h) = selectedImage h
         \<and> readers (handleImageSelect (Some f) h) = readers h
         \<and> predict_posts (handleImageSelect (Some f) h) = predict_posts h
         \<and> prediction (handleImageSelect (Some f) h) = prediction h
         \<and> toasts (handleImageSelect (Some f) c) =
           toasts c @ [Error ''Please select a valid image file'']
         \<and> selectedImage (handleImageSelect (Some f) c) = selectedImage c
         \<and> readers (handleImageSelect (Some f) c) = readers c
         \<and> chat_posts (handleImageSelect (Some f) c) = chat_posts c
         \<and> messages (handleImageSelect (Some f) c) = messages c"
  using assms by (simp add: handleImageSelect_def)

theorem non_image_file_rejected_witness:
  "\<not> startsWith (ftype report) ''image/''
   \<and> toasts (handleImageSelect (Some report)
        (onloadend 0 True (handleImageSelect (Some leaf) home_init))) =
       [Error ''Please select a valid image file'']
   \<and> selectedImage (handleImageSelect (Some report)
        (onloadend 0 True (handleImageSelect (Some leaf) home_init))) =
       Some ''data:image/png;base64,iVBOR''
   \<and> predict_posts (handleImageSelect (Some report)
        (onloadend 0 True (handleImageSelect (Some leaf) home_init))) = []
   \<and> chat_posts (handleImageSelect (Some report) (chat_init ''session_1'')) = []"
  using non_image_file_rejected
    [of report "onloadend 0 True (handleImageSelect (Some leaf) home_init)"
        "chat_init ''session_1''"]
  by (simp add: eval_defs)

end
